theory Spec2Isabelle
  imports Main
begin

section \<open>The compile lock of \<^verbatim>\<open>theano/gof/compilelock.py\<close>\<close>

text \<open>
  The module serialises access to a directory with an advisory lock on a sentinel file in
  that directory. It has three entry points: the context manager \<^verbatim>\<open>lock_ctx\<close> and the
  pair \<^verbatim>\<open>get_lock\<close> / \<^verbatim>\<open>release_lock\<close>, which keeps the open file in the function
  attribute \<^verbatim>\<open>get_lock.f\<close>. All three are a few calls of \<^verbatim>\<open>open\<close>,
  \<^verbatim>\<open>fcntl.lockf\<close> and \<^verbatim>\<open>close\<close>, so the embedding is a state of the operating
  system (directories, files, open file objects, record locks) together with the Python
  state of each process (the attribute \<^verbatim>\<open>get_lock.f\<close>), and the three functions pass
  that state along.
\<close>

subsection \<open>Outcomes of a call\<close>

type_synonym pid = nat
type_synonym handle = nat
type_synonym inode = nat

datatype errno = ENOENT | EACCES

text \<open>
  The exceptions that the module's code can raise, and \<open>OtherError\<close> for whatever the
  caller's own block raises.
\<close>

datatype exn =
    IOError errno
  | ValueError
  | AssertionError
  | AttributeError
  | OtherError string

text \<open>
  A call returns a value, raises, or waits in \<^verbatim>\<open>fcntl.lockf\<close> for a lock that another
  process holds. \<open>Blocked\<close> carries no value: the call has not come back, and the state
  paired with it is the one in which it waits.
\<close>

datatype 'a res = Ok 'a | Raised exn | Blocked

subsection \<open>The state\<close>

text \<open>
  \<^item> \<open>dirs\<close>: the directories that exist, with whether the caller may create entries
    in them;
  \<^item> \<open>files\<close>: the regular files, by path, and the inode each names;
  \<^item> \<open>contents\<close>: the bytes of each inode;
  \<^item> \<open>locks\<close>: the process owning the exclusive record lock on the whole of an inode;
    record locks belong to a process, not to a descriptor;
  \<^item> \<open>fdtab\<close>: the open Python file objects, with the process that opened each and the
    inode it refers to; a file object that is not in the table is closed;
  \<^item> \<open>get_lock_f\<close>: per process, the value of the attribute \<^verbatim>\<open>get_lock.f\<close>; \<open>None\<close>
    is "the function object has no such attribute";
  \<^item> \<open>next_handle\<close>, \<open>next_inode\<close>: the identities given to the next file object and
    the next file created.
\<close>

record os_state =
  dirs :: "string \<rightharpoonup> bool"
  files :: "string \<rightharpoonup> inode"
  contents :: "inode \<Rightarrow> string"
  locks :: "inode \<rightharpoonup> pid"
  fdtab :: "handle \<rightharpoonup> pid \<times> inode"
  get_lock_f :: "pid \<rightharpoonup> handle"
  next_handle :: handle
  next_inode :: inode

record config =
  compiledir :: string

subsection \<open>Paths\<close>

text \<open>
  \<^verbatim>\<open>os.path.join(a, b)\<close> of \<^verbatim>\<open>posixpath\<close> for two components: an absolute \<open>b\<close>
  replaces \<open>a\<close>; a separator is inserted unless \<open>a\<close> is empty or already ends in one.
\<close>

definition os_path_join :: "string \<Rightarrow> string \<Rightarrow> string" where
  "os_path_join a b =
     (if b \<noteq> [] \<and> hd b = CHR ''/'' then b
      else if a = [] \<or> last a = CHR ''/'' then a @ b
      else a @ ''/'' @ b)"

text \<open>
  Path resolution in the kernel: the last component of a path is looked up in the
  directory named by everything before the last separator. Directories are listed in
  \<open>dirs\<close> without trailing separators (the root and other runs of separators as they
  are, the working directory as the empty string), and \<open>dir_key\<close> brings a directory
  name to that form.
\<close>

definition rstrip_sep :: "string \<Rightarrow> string" where
  "rstrip_sep d = rev (dropWhile (\<lambda>c. c = CHR ''/'') (rev d))"

definition dir_key :: "string \<Rightarrow> string" where
  "dir_key d = (if set d \<subseteq> {CHR ''/''} then d else rstrip_sep d)"

definition parent_dir :: "string \<Rightarrow> string" where
  "parent_dir path = dir_key (rev (dropWhile (\<lambda>c. c \<noteq> CHR ''/'') (rev path)))"

subsection \<open>The primitives: \<^verbatim>\<open>open\<close>, \<^verbatim>\<open>fcntl.lockf\<close>, \<^verbatim>\<open>close\<close>\<close>

text \<open>
  \<^verbatim>\<open>open(path, 'w')\<close> is \<^verbatim>\<open>O_WRONLY | O_CREAT | O_TRUNC\<close>: it fails when the parent
  directory does not exist, creates the file when it is absent (which needs a writable
  directory), and cuts an existing file to length zero. The truncation happens in the
  call itself, before any lock is asked for. Other failures of \<^verbatim>\<open>open\<close> (a sentinel
  that is itself unwritable, descriptor exhaustion) are outside the model.
\<close>

definition py_open_w :: "pid \<Rightarrow> string \<Rightarrow> os_state \<Rightarrow> handle res \<times> os_state" where
  "py_open_w p path s =
     (case dirs s (parent_dir path) of
        None \<Rightarrow> (Raised (IOError ENOENT), s)
      | Some writable \<Rightarrow>
          (case files s path of
             Some i \<Rightarrow>
               (Ok (next_handle s),
                s\<lparr>contents := (contents s)(i := []),
                  fdtab := (fdtab s)(next_handle s \<mapsto> (p, i)),
                  next_handle := Suc (next_handle s)\<rparr>)
           | None \<Rightarrow>
               if writable then
                 (Ok (next_handle s),
                  s\<lparr>files := (files s)(path \<mapsto> next_inode s),
                    contents := (contents s)(next_inode s := []),
                    fdtab := (fdtab s)(next_handle s \<mapsto> (p, next_inode s)),
                    next_handle := Suc (next_handle s),
                    next_inode := Suc (next_inode s)\<rparr>)
               else (Raised (IOError EACCES), s)))"

text \<open>
  \<^verbatim>\<open>fcntl.lockf(f, cmd)\<close> wraps the \<^verbatim>\<open>fcntl\<close> record locks on the whole file. On a
  closed file object it raises \<^verbatim>\<open>ValueError\<close>. \<^verbatim>\<open>LOCK_EX\<close> waits while another
  process owns the lock; the owner is a process, so a process that already owns the lock
  (through whichever descriptor) gets it again at once. \<^verbatim>\<open>LOCK_UN\<close> drops the lock of
  the calling process on that file and is silent when it has none.
\<close>

datatype lock_cmd = LOCK_EX | LOCK_UN

definition fcntl_lockf :: "handle \<Rightarrow> lock_cmd \<Rightarrow> os_state \<Rightarrow> unit res \<times> os_state" where
  "fcntl_lockf f cmd s =
     (case fdtab s f of
        None \<Rightarrow> (Raised ValueError, s)
      | Some (p, i) \<Rightarrow>
          (case cmd of
             LOCK_EX \<Rightarrow>
               (case locks s i of
                  None \<Rightarrow> (Ok (), s\<lparr>locks := (locks s)(i \<mapsto> p)\<rparr>)
                | Some q \<Rightarrow> if q = p then (Ok (), s) else (Blocked, s))
           | LOCK_UN \<Rightarrow>
               (Ok (), if locks s i = Some p then s\<lparr>locks := (locks s)(i := None)\<rparr> else s)))"

text \<open>
  \<^verbatim>\<open>f.close()\<close>: closing a closed file object does nothing. Closing an open one closes
  its descriptor, and when a process closes any descriptor of a file, all the record
  locks that the process holds on that file are removed.
\<close>

definition file_close :: "handle \<Rightarrow> os_state \<Rightarrow> os_state" where
  "file_close f s =
     (case fdtab s f of
        None \<Rightarrow> s
      | Some (p, i) \<Rightarrow>
          s\<lparr>fdtab := (fdtab s)(f := None),
            locks := (if locks s i = Some p then (locks s)(i := None) else locks s)\<rparr>)"

subsection \<open>\<^verbatim>\<open>lock_ctx\<close>\<close>

text \<open>
  The default of \<^verbatim>\<open>lock_dir\<close> and the path of the sentinel, as the first lines of
  \<^verbatim>\<open>lock_ctx\<close> and of \<^verbatim>\<open>get_lock\<close> compute them.
\<close>

definition lock_dir_or_default :: "config \<Rightarrow> string option \<Rightarrow> string" where
  "lock_dir_or_default cfg lock_dir =
     (case lock_dir of None \<Rightarrow> compiledir cfg | Some d \<Rightarrow> d)"

definition sentinel_path :: "config \<Rightarrow> string option \<Rightarrow> string" where
  "sentinel_path cfg lock_dir = os_path_join (lock_dir_or_default cfg lock_dir) ''.theano_lock''"

text \<open>
  \<^verbatim>\<open>@contextmanager\<close> runs the generator up to its \<^verbatim>\<open>yield\<close> when the caller's
  \<^verbatim>\<open>with\<close> statement is entered, and resumes it there when the caller's block ends: by
  continuing after the \<^verbatim>\<open>yield\<close> when the block ended normally, by raising the block's
  exception at the \<^verbatim>\<open>yield\<close> otherwise. The generator's own
  \<^verbatim>\<open>with open(...) as f\<close> encloses the \<^verbatim>\<open>yield\<close>, so \<open>f\<close> is closed whenever control
  leaves the generator's body, with or without an exception; the generator has no
  \<^verbatim>\<open>try\<close>, so an exception at the \<^verbatim>\<open>yield\<close> skips the \<^verbatim>\<open>LOCK_UN\<close>.

  \<open>lock_ctx_enter\<close> is the part before the \<^verbatim>\<open>yield\<close>, \<open>lock_ctx_exit\<close> the part after
  it, given how the block ended, and \<open>lock_ctx\<close> is the caller's whole statement
  \<^verbatim>\<open>with lock_ctx(lock_dir, keep_lock): block\<close>.
\<close>

type_synonym block = "os_state \<Rightarrow> unit res \<times> os_state"

definition lock_ctx_enter :: "config \<Rightarrow> pid \<Rightarrow> string option \<Rightarrow> os_state \<Rightarrow> handle res \<times> os_state" where
  "lock_ctx_enter cfg p lock_dir s =
     (case py_open_w p (sentinel_path cfg lock_dir) s of
        (Ok f, s0) \<Rightarrow>
          (case fcntl_lockf f LOCK_EX s0 of
             (Ok u, s1) \<Rightarrow> (Ok f, s1)
           | (Raised e, s1) \<Rightarrow> (Raised e, file_close f s1)
           | (Blocked, s1) \<Rightarrow> (Blocked, s1))
      | (Raised e, s0) \<Rightarrow> (Raised e, s0)
      | (Blocked, s0) \<Rightarrow> (Blocked, s0))"

definition lock_ctx_exit :: "handle \<Rightarrow> bool \<Rightarrow> unit res \<times> os_state \<Rightarrow> unit res \<times> os_state" where
  "lock_ctx_exit f keep_lock r =
     (case r of
        (Ok u, s2) \<Rightarrow>
          if \<not> keep_lock then
            (case fcntl_lockf f LOCK_UN s2 of
               (Blocked, s3) \<Rightarrow> (Blocked, s3)
             | (r3, s3) \<Rightarrow> (r3, file_close f s3))
          else (Ok (), file_close f s2)
      | (Raised e, s2) \<Rightarrow> (Raised e, file_close f s2)
      | (Blocked, s2) \<Rightarrow> (Blocked, s2))"

definition lock_ctx :: "config \<Rightarrow> pid \<Rightarrow> string option \<Rightarrow> bool \<Rightarrow> block \<Rightarrow> os_state \<Rightarrow> unit res \<times> os_state" where
  "lock_ctx cfg p lock_dir keep_lock body s =
     (case lock_ctx_enter cfg p lock_dir s of
        (Ok f, s1) \<Rightarrow> lock_ctx_exit f keep_lock (body s1)
      | (Raised e, s1) \<Rightarrow> (Raised e, s1)
      | (Blocked, s1) \<Rightarrow> (Blocked, s1))"

subsection \<open>\<^verbatim>\<open>get_lock\<close> and \<^verbatim>\<open>release_lock\<close>\<close>

text \<open>
  \<^verbatim>\<open>get_lock\<close> opens and locks first and only then asserts that no file is registered:
  \<^verbatim>\<open>getattr(get_lock, 'f', None)\<close> is \<^verbatim>\<open>None\<close> when the attribute is absent, and a file
  object, open or closed, is true. When the assertion fails the new file object is
  neither registered nor closed by the function; what the garbage collector does with
  it later is outside the model.
\<close>

definition get_lock :: "config \<Rightarrow> pid \<Rightarrow> string option \<Rightarrow> os_state \<Rightarrow> unit res \<times> os_state" where
  "get_lock cfg p lock_dir s =
     (case py_open_w p (sentinel_path cfg lock_dir) s of
        (Ok f, s0) \<Rightarrow>
          (case fcntl_lockf f LOCK_EX s0 of
             (Ok u, s1) \<Rightarrow>
               (case get_lock_f s1 p of
                  Some g \<Rightarrow> (Raised AssertionError, s1)
                | None \<Rightarrow> (Ok (), s1\<lparr>get_lock_f := (get_lock_f s1)(p \<mapsto> f)\<rparr>))
           | (Raised e, s1) \<Rightarrow> (Raised e, s1)
           | (Blocked, s1) \<Rightarrow> (Blocked, s1))
      | (Raised e, s0) \<Rightarrow> (Raised e, s0)
      | (Blocked, s0) \<Rightarrow> (Blocked, s0))"

text \<open>
  \<^verbatim>\<open>release_lock\<close> reads the attribute directly: \<^verbatim>\<open>get_lock.f\<close> on a function object
  without that attribute raises \<^verbatim>\<open>AttributeError\<close> while the condition of the
  \<^verbatim>\<open>assert\<close> is being evaluated. When the attribute is there it is a file object, which
  is true, so the assertion itself passes. \<^verbatim>\<open>del get_lock.f\<close> removes the attribute.
\<close>

definition release_lock :: "pid \<Rightarrow> os_state \<Rightarrow> unit res \<times> os_state" where
  "release_lock p s =
     (case get_lock_f s p of
        None \<Rightarrow> (Raised AttributeError, s)
      | Some f \<Rightarrow>
          (case fcntl_lockf f LOCK_UN s of
             (Ok u, s1) \<Rightarrow>
               (Ok (), (file_close f s1)\<lparr>get_lock_f := (get_lock_f s1)(p := None)\<rparr>)
           | (Raised e, s1) \<Rightarrow> (Raised e, s1)
           | (Blocked, s1) \<Rightarrow> (Blocked, s1)))"

subsection \<open>Conditions on states and on the caller's block\<close>

text \<open>
  The sentinel of a directory can be opened and locked at once by process \<open>p\<close>: the
  directory exists, the sentinel exists or can be created, and no other process owns
  the lock on it.
\<close>

definition sentinel_available :: "config \<Rightarrow> pid \<Rightarrow> string option \<Rightarrow> os_state \<Rightarrow> bool" where
  "sentinel_available cfg p lock_dir s =
     (case dirs s (dir_key (lock_dir_or_default cfg lock_dir)) of
        None \<Rightarrow> False
      | Some writable \<Rightarrow>
          (case files s (sentinel_path cfg lock_dir) of
             Some i \<Rightarrow> locks s i = None \<or> locks s i = Some p
           | None \<Rightarrow> writable \<and> (locks s (next_inode s) = None \<or> locks s (next_inode s) = Some p)))"

text \<open>A block that removes no file.\<close>

definition keeps_files :: "block \<Rightarrow> bool" where
  "keeps_files body \<longleftrightarrow> (\<forall>t x i. files t x = Some i \<longrightarrow> files (snd (body t)) x = Some i)"



subsection \<open>Concurrent callers of \<^verbatim>\<open>lock_ctx\<close>\<close>

text \<open>
  Several callers run \<^verbatim>\<open>with lock_ctx(lock_dir, keep_lock): block\<close> at the same time.
  A caller is a thread of some process; its statement is cut at the system calls, which
  are atomic, and the callers' steps interleave in any order. The steps are those of
  \<open>lock_ctx_enter\<close> and \<open>lock_ctx_exit\<close>: open, lock, the block, unlock unless
  \<^verbatim>\<open>keep_lock\<close>, close. A caller whose \<^verbatim>\<open>LOCK_EX\<close> has to wait stays where it is.
  A caller is inside its critical section from the moment its \<^verbatim>\<open>LOCK_EX\<close> returns
  until its block has ended.
\<close>

record caller =
  c_proc :: pid
  c_lock_dir :: "string option"
  c_keep_lock :: bool
  c_block :: block

datatype pc =
    Start
  | Waiting handle
  | Inside handle
  | Leaving handle
  | Closing handle "unit res"
  | Finished "unit res"

fun caller_step :: "config \<Rightarrow> caller \<Rightarrow> pc \<times> os_state \<Rightarrow> pc \<times> os_state" where
  "caller_step cfg c (Start, s) =
     (case py_open_w (c_proc c) (sentinel_path cfg (c_lock_dir c)) s of
        (Ok f, s0) \<Rightarrow> (Waiting f, s0)
      | (Raised e, s0) \<Rightarrow> (Finished (Raised e), s0)
      | (Blocked, s0) \<Rightarrow> (Start, s0))"
| "caller_step cfg c (Waiting f, s) =
     (case fcntl_lockf f LOCK_EX s of
        (Ok u, s1) \<Rightarrow> (Inside f, s1)
      | (Raised e, s1) \<Rightarrow> (Closing f (Raised e), s1)
      | (Blocked, s1) \<Rightarrow> (Waiting f, s1))"
| "caller_step cfg c (Inside f, s) =
     (case c_block c s of
        (Ok u, s2) \<Rightarrow> (if \<not> c_keep_lock c then Leaving f else Closing f (Ok ()), s2)
      | (Raised e, s2) \<Rightarrow> (Closing f (Raised e), s2)
      | (Blocked, s2) \<Rightarrow> (Inside f, s2))"
| "caller_step cfg c (Leaving f, s) =
     (case fcntl_lockf f LOCK_UN s of
        (Blocked, s3) \<Rightarrow> (Leaving f, s3)
      | (r, s3) \<Rightarrow> (Closing f r, s3))"
| "caller_step cfg c (Closing f r, s) = (Finished r, file_close f s)"
| "caller_step cfg c (Finished r, s) = (Finished r, s)"

definition sys_step :: "config \<Rightarrow> (nat \<Rightarrow> caller) \<Rightarrow> (nat \<Rightarrow> pc) \<times> os_state \<Rightarrow> nat \<Rightarrow> (nat \<Rightarrow> pc) \<times> os_state" where
  "sys_step cfg callers conf c =
     (case caller_step cfg (callers c) (fst conf c, snd conf) of
        (pc', s') \<Rightarrow> ((fst conf)(c := pc'), s'))"

text \<open>A schedule is the list of the callers that take the next step, in order.\<close>

definition run :: "config \<Rightarrow> (nat \<Rightarrow> caller) \<Rightarrow> nat list \<Rightarrow> (nat \<Rightarrow> pc) \<times> os_state \<Rightarrow> (nat \<Rightarrow> pc) \<times> os_state" where
  "run cfg callers schedule conf = foldl (sys_step cfg callers) conf schedule"











subsection \<open>Concrete states\<close>

text \<open>
  A machine with two empty directories; the same machine after process 1 has opened and
  locked the sentinel of \<^verbatim>\<open>/d\<close>; that state with the file object registered in
  \<^verbatim>\<open>get_lock.f\<close>; the entered state after a block has written a new file
  \<^verbatim>\<open>/d/mod.so\<close>; and a machine whose sentinel already holds some bytes.
\<close>

definition example_config :: config where
  "example_config = \<lparr>compiledir = ''/d''\<rparr>"

definition example_state :: os_state where
  "example_state =
     \<lparr>dirs = [''/d'' \<mapsto> True, ''/e'' \<mapsto> True], files = Map.empty, contents = (\<lambda>i. []),
      locks = Map.empty, fdtab = Map.empty, get_lock_f = Map.empty,
      next_handle = 0, next_inode = 0\<rparr>"

definition entered_state :: os_state where
  "entered_state =
     example_state\<lparr>files := [''/d/.theano_lock'' \<mapsto> 0], locks := [0 \<mapsto> 1],
       fdtab := [0 \<mapsto> (1, 0)], next_handle := 1, next_inode := 1\<rparr>"

definition held_state :: os_state where
  "held_state = entered_state\<lparr>get_lock_f := [1 \<mapsto> 0]\<rparr>"

definition stale_state :: os_state where
  "stale_state =
     example_state\<lparr>files := [''/d/.theano_lock'' \<mapsto> 0],
       contents := (\<lambda>i. [])(0 := ''old data''), next_inode := 1\<rparr>"

definition normal_block :: block where
  "normal_block s = (Ok (), s)"

text \<open>A block that writes \<^verbatim>\<open>/d/mod.so\<close>, creating it if need be, and then raises.\<close>

definition compiling_block :: block where
  "compiling_block s =
     (Raised (OtherError ''boom''),
      case files s ''/d/mod.so'' of
        Some i \<Rightarrow> s\<lparr>contents := (contents s)(i := ''code'')\<rparr>
      | None \<Rightarrow>
          s\<lparr>files := (files s)(''/d/mod.so'' \<mapsto> next_inode s),
            contents := (contents s)(next_inode s := ''code''),
            next_inode := Suc (next_inode s)\<rparr>)"

definition compiled_state :: os_state where
  "compiled_state =
     entered_state\<lparr>files := [''/d/.theano_lock'' \<mapsto> 0, ''/d/mod.so'' \<mapsto> 1],
       contents := (\<lambda>i. [])(1 := ''code''), next_inode := 2\<rparr>"



section \<open>Properties\<close>

subsection \<open>The sentinel's path and the primitives\<close>

lemmas lock_splits = option.splits prod.splits res.splits lock_cmd.splits if_splits

lemmas lock_primitives = fcntl_lockf_def file_close_def

lemma dropWhile_not_sep_name:
  "dropWhile (\<lambda>c. c \<noteq> CHR ''/'') (rev ''.theano_lock'' @ xs) = dropWhile (\<lambda>c. c \<noteq> CHR ''/'') xs"
  by simp

text \<open>The sentinel is looked up in the directory that was passed in.\<close>

lemma parent_dir_join:
  "parent_dir (os_path_join d ''.theano_lock'') = dir_key d"
proof (cases "d = [] \<or> last d = CHR ''/''")
  case True
  then have j: "os_path_join d ''.theano_lock'' = d @ ''.theano_lock''"
    by (simp add: os_path_join_def)
  have "dropWhile (\<lambda>c. c \<noteq> CHR ''/'') (rev d) = rev d"
    using True by (cases "rev d") (auto simp: last_rev)
  then show ?thesis
    unfolding parent_dir_def j rev_append dropWhile_not_sep_name by simp
next
  case False
  then have j: "os_path_join d ''.theano_lock'' = d @ ''/'' @ ''.theano_lock''"
    by (simp add: os_path_join_def)
  from False have ne: "d \<noteq> []" and l: "last d \<noteq> CHR ''/''" by auto
  then have nset: "\<not> set d \<subseteq> {CHR ''/''}" using last_in_set by fastforce
  have r: "rstrip_sep d = d"
    using ne l by (cases "rev d") (auto simp: rstrip_sep_def last_rev dest: arg_cong [where f = rev])
  have "parent_dir ((d @ ''/'') @ ''.theano_lock'') = dir_key (d @ ''/'')"
    unfolding parent_dir_def rev_append [of "d @ ''/''"] dropWhile_not_sep_name by simp
  also have "\<dots> = rstrip_sep (d @ ''/'')" using nset by (simp add: dir_key_def)
  also have "\<dots> = rstrip_sep d" by (simp add: rstrip_sep_def)
  finally show ?thesis using nset r j by (simp add: dir_key_def)
qed

lemma parent_dir_sentinel:
  "parent_dir (sentinel_path cfg lock_dir) = dir_key (lock_dir_or_default cfg lock_dir)"
  by (simp add: sentinel_path_def parent_dir_join)

lemma py_open_w_missing:
  "dirs s (dir_key (lock_dir_or_default cfg lock_dir)) = None \<Longrightarrow>
   py_open_w p (sentinel_path cfg lock_dir) s = (Raised (IOError ENOENT), s)"
  by (simp add: py_open_w_def parent_dir_sentinel)

lemma file_close_files [simp]: "files (file_close f s) = files s"
  by (simp add: file_close_def split: option.splits prod.splits)

lemma fcntl_lockf_files [simp]: "files (snd (fcntl_lockf f cmd s)) = files s"
  by (simp add: fcntl_lockf_def split: lock_splits)

lemmas example_defs =
  example_config_def example_state_def entered_state_def held_state_def stale_state_def
  normal_block_def compiling_block_def compiled_state_def
  lock_dir_or_default_def sentinel_path_def os_path_join_def dir_key_def rstrip_sep_def
  parent_dir_def

lemmas example_run =
  lock_ctx_def lock_ctx_enter_def lock_ctx_exit_def get_lock_def release_lock_def
  py_open_w_def fcntl_lockf_def file_close_def example_defs


subsection \<open>Entering and leaving the scope\<close>

lemma sentinel_available_enter:
  "sentinel_available cfg p lock_dir s \<longleftrightarrow>
   (\<exists>f s1. lock_ctx_enter cfg p lock_dir s = (Ok f, s1))"
  by (auto simp: sentinel_available_def lock_ctx_enter_def py_open_w_def parent_dir_sentinel
        lock_primitives split: lock_splits)

lemma lock_ctx_enter_Ok:
  assumes "lock_ctx_enter cfg p lock_dir s = (Ok f, s1)"
  shows "\<exists>i. files s1 (sentinel_path cfg lock_dir) = Some i \<and>
           fdtab s1 f = Some (p, i) \<and> locks s1 i = Some p"
  using assms
  by (auto simp: lock_ctx_enter_def py_open_w_def lock_primitives split: lock_splits)

lemma lock_ctx_enter_Ok_dirs:
  assumes "lock_ctx_enter cfg p lock_dir s = (Ok f, s1)"
  shows "\<exists>w. dirs s1 (dir_key (lock_dir_or_default cfg lock_dir)) = Some w"
  using assms
  by (auto simp: lock_ctx_enter_def py_open_w_def parent_dir_sentinel lock_primitives
        split: lock_splits)

lemma lock_ctx_exit_open:
  assumes "fdtab s2 f = Some (p, i)" and "r \<noteq> Blocked"
  shows "lock_ctx_exit f keep_lock (r, s2) =
           (r, s2\<lparr>fdtab := (fdtab s2)(f := None),
                  locks := (if locks s2 i = Some p then (locks s2)(i := None) else locks s2)\<rparr>)"
  using assms by (cases r) (auto simp: lock_ctx_exit_def lock_primitives)

lemma lock_ctx_enter_files:
  "files s x = Some i \<Longrightarrow> files (snd (lock_ctx_enter cfg p lock_dir s)) x = Some i"
  by (auto simp: lock_ctx_enter_def py_open_w_def lock_primitives split: lock_splits)

lemma lock_ctx_exit_files:
  "files (snd (lock_ctx_exit f keep_lock (r, s))) = files s"
  by (auto simp: lock_ctx_exit_def lock_primitives split: lock_splits)

lemma lock_ctx_enter_creates:
  "dirs s (dir_key (lock_dir_or_default cfg lock_dir)) = Some True \<Longrightarrow>
   files (snd (lock_ctx_enter cfg p lock_dir s)) (sentinel_path cfg lock_dir) \<noteq> None"
  by (auto simp: lock_ctx_enter_def py_open_w_def parent_dir_sentinel lock_primitives
        split: lock_splits)

lemma lock_ctx_files:
  assumes "keeps_files body" and "files s x = Some i"
  shows "files (snd (lock_ctx cfg p lock_dir keep_lock body s)) x = Some i"
proof (cases "lock_ctx_enter cfg p lock_dir s")
  case (Pair r s1)
  with assms(2) lock_ctx_enter_files [of s x i cfg p lock_dir]
  have s1: "files s1 x = Some i" by simp
  show ?thesis
  proof (cases r)
    case (Ok f)
    obtain r2 s2 where b: "body s1 = (r2, s2)" by (cases "body s1")
    with assms(1) s1 have "files s2 x = Some i"
      unfolding keeps_files_def by (metis snd_conv)
    with Pair Ok b show ?thesis
      by (simp add: lock_ctx_def lock_ctx_exit_files)
  qed (use Pair s1 in \<open>simp_all add: lock_ctx_def\<close>)
qed

lemma example_enter:
  "lock_ctx_enter example_config 1 (Some ''/d'') example_state = (Ok 0, entered_state)"
  by (auto simp: example_run)

lemma example_compile:
  "compiling_block entered_state = (Raised (OtherError ''boom''), compiled_state)"
  by (auto simp: example_defs)

subsection \<open>The registered lock\<close>

lemma get_lock_registers:
  assumes "get_lock cfg p lock_dir s = (Ok (), s')"
  shows "\<exists>f i. get_lock_f s' p = Some f \<and> fdtab s' f = Some (p, i) \<and>
           files s' (sentinel_path cfg lock_dir) = Some i \<and> locks s' i = Some p"
  using assms
  by (auto simp: get_lock_def py_open_w_def lock_primitives split: lock_splits)

lemma get_lock_files:
  "files s x = Some i \<Longrightarrow> files (snd (get_lock cfg p lock_dir s)) x = Some i"
  by (auto simp: get_lock_def py_open_w_def lock_primitives split: lock_splits)

lemma release_lock_files: "files (snd (release_lock p s)) = files s"
  by (auto simp: release_lock_def lock_primitives split: lock_splits)

lemma release_lock_post:
  assumes "get_lock_f s p = Some f" and "fdtab s f = Some (p, i)"
  shows "release_lock p s =
           (Ok (), s\<lparr>locks := (if locks s i = Some p then (locks s)(i := None) else locks s),
                     fdtab := (fdtab s)(f := None),
                     get_lock_f := (get_lock_f s)(p := None)\<rparr>)"
  using assms by (simp add: release_lock_def lock_primitives)

lemma example_get_lock:
  "get_lock example_config 1 (Some ''/d'') example_state = (Ok (), held_state)"
  by (auto simp: example_run)

lemma example_release:
  "fst (release_lock 1 held_state) = Ok ()"
  by (simp add: release_lock_def lock_primitives example_defs)

subsection \<open>Concurrent callers\<close>

text \<open>
  Run alone and to its end, a caller's steps give what \<open>lock_ctx\<close> gives: the steps are
  the same code.
\<close>

lemma caller_steps_lock_ctx:
  assumes "lock_ctx cfg (c_proc c) (c_lock_dir c) (c_keep_lock c) (c_block c) s = (r, s')"
      and "r \<noteq> Blocked"
  shows "(caller_step cfg c ^^ 5) (Start, s) = (Finished r, s')"
proof (cases "py_open_w (c_proc c) (sentinel_path cfg (c_lock_dir c)) s")
  case (Pair ro s0)
  show ?thesis
  proof (cases ro)
    case (Ok f)
    obtain rl s1 where l: "fcntl_lockf f LOCK_EX s0 = (rl, s1)"
      by (cases "fcntl_lockf f LOCK_EX s0")
    show ?thesis
    proof (cases rl)
      case locked: (Ok u)
      obtain rb s2 where b: "c_block c s1 = (rb, s2)" by (cases "c_block c s1")
      obtain ru s3 where u: "fcntl_lockf f LOCK_UN s2 = (ru, s3)"
        by (cases "fcntl_lockf f LOCK_UN s2")
      have nb: "ru \<noteq> Blocked"
        using u by (auto simp: fcntl_lockf_def split: lock_splits)
      from assms Pair Ok l locked b u nb show ?thesis
        by (cases rb; cases ru; cases "c_keep_lock c")
           (auto simp: lock_ctx_def lock_ctx_enter_def lock_ctx_exit_def eval_nat_numeral)
    next
      case (Raised e)
      with assms Pair Ok l show ?thesis
        by (auto simp: lock_ctx_def lock_ctx_enter_def eval_nat_numeral)
    next
      case Blocked
      with assms Pair Ok l show ?thesis
        by (auto simp: lock_ctx_def lock_ctx_enter_def)
    qed
  next
    case (Raised e)
    with assms Pair show ?thesis
      by (auto simp: lock_ctx_def lock_ctx_enter_def eval_nat_numeral)
  next
    case Blocked
    with assms Pair show ?thesis
      by (auto simp: lock_ctx_def lock_ctx_enter_def)
  qed
qed



















section \<open>The claims\<close>

subsection \<open>C1: mutual exclusion of scoped acquisitions\<close>




subsection \<open>C2: release on every exit path\<close>

text \<open>
  C2: a scoped acquisition with \<^verbatim>\<open>keep_lock\<close> false has released the lock when control
  leaves it, also when the caller's block raises, and a fresh scoped acquisition of the
  same directory then gets the lock without waiting. Here the scope has been entered,
  so that the process owns the lock on the sentinel, and the block ends with \<open>r\<close>,
  normally or by an exception, the scope's own file object being still open (the block
  has no name for it). Then the statement ends the same way and the process no longer
  owns the lock. If moreover the block has left the sentinel and its directory in place
  and has not passed the lock to another process, the lock is free and any process
  enters a new scope on the directory at once. When the block raises, the \<^verbatim>\<open>LOCK_UN\<close>
  is skipped and it is the \<^verbatim>\<open>close\<close> of the enclosing \<^verbatim>\<open>with open\<close> that drops
  the lock.
\<close>

theorem scope_exit_frees_lock:
  assumes enter: "lock_ctx_enter cfg p lock_dir s = (Ok f, s1)"
      and body: "body s1 = (r, s2)" and r: "r \<noteq> Blocked"
      and kept: "fdtab s2 f = fdtab s1 f"
  shows "\<exists>s' i. lock_ctx cfg p lock_dir False body s = (r, s') \<and>
           files s1 (sentinel_path cfg lock_dir) = Some i \<and> locks s1 i = Some p \<and>
           locks s' i \<noteq> Some p \<and>
           (files s2 (sentinel_path cfg lock_dir) = Some i \<and>
            dirs s2 (dir_key (lock_dir_or_default cfg lock_dir)) \<noteq> None \<and>
            (locks s2 i = None \<or> locks s2 i = Some p) \<longrightarrow>
              locks s' i = None \<and>
              (\<forall>q. \<exists>f' s''. lock_ctx_enter cfg q lock_dir s' = (Ok f', s'')))"
proof -
  from lock_ctx_enter_Ok [OF enter] obtain i where
    i: "files s1 (sentinel_path cfg lock_dir) = Some i" "fdtab s1 f = Some (p, i)"
       "locks s1 i = Some p"
    by blast
  with kept have open2: "fdtab s2 f = Some (p, i)" by simp
  define s' where
    "s' = s2\<lparr>fdtab := (fdtab s2)(f := None),
             locks := (if locks s2 i = Some p then (locks s2)(i := None) else locks s2)\<rparr>"
  have "lock_ctx_exit f False (r, s2) = (r, s')"
    using lock_ctx_exit_open [OF open2 r, of False] by (simp add: s'_def)
  with enter body have run: "lock_ctx cfg p lock_dir False body s = (r, s')"
    by (simp add: lock_ctx_def)
  have released: "locks s' i \<noteq> Some p"
    by (simp add: s'_def)
  have fresh: "locks s' i = None \<and> (\<forall>q. \<exists>f' s''. lock_ctx_enter cfg q lock_dir s' = (Ok f', s''))"
    if there: "files s2 (sentinel_path cfg lock_dir) = Some i"
      and dir: "dirs s2 (dir_key (lock_dir_or_default cfg lock_dir)) \<noteq> None"
      and own: "locks s2 i = None \<or> locks s2 i = Some p"
  proof -
    from own have free: "locks s' i = None" by (auto simp: s'_def)
    from dir obtain w where w: "dirs s' (dir_key (lock_dir_or_default cfg lock_dir)) = Some w"
      by (auto simp: s'_def)
    from there have "files s' (sentinel_path cfg lock_dir) = Some i" by (simp add: s'_def)
    with w free have "sentinel_available cfg q lock_dir s'" for q
      by (simp add: sentinel_available_def)
    then have "\<forall>q. \<exists>f' s''. lock_ctx_enter cfg q lock_dir s' = (Ok f', s'')"
      by (simp add: sentinel_available_enter)
    with free show ?thesis by simp
  qed
  from run i released fresh show ?thesis by blast
qed

text \<open>
  Process 1 enters the scope on \<^verbatim>\<open>/d\<close>, its block writes \<^verbatim>\<open>/d/mod.so\<close> and raises;
  the exception comes out of the statement, the lock is free, and process 2 then enters
  a scope on \<^verbatim>\<open>/d\<close> at once.
\<close>

theorem scope_exit_frees_lock_witness:
  "lock_ctx_enter example_config 1 (Some ''/d'') example_state = (Ok 0, entered_state) \<and>
   compiling_block entered_state = (Raised (OtherError ''boom''), compiled_state) \<and>
   fdtab compiled_state 0 = fdtab entered_state 0 \<and>
   files compiled_state ''/d/mod.so'' = Some 1 \<and>
   locks entered_state 0 = Some 1 \<and>
   fst (lock_ctx example_config 1 (Some ''/d'') False compiling_block example_state) =
     Raised (OtherError ''boom'') \<and>
   locks (snd (lock_ctx example_config 1 (Some ''/d'') False compiling_block example_state)) 0 = None \<and>
   (\<exists>f' s''. lock_ctx_enter example_config 2 (Some ''/d'')
       (snd (lock_ctx example_config 1 (Some ''/d'') False compiling_block example_state)) = (Ok f', s''))"
proof -
  have r: "Raised (OtherError ''boom'') \<noteq> (Blocked :: unit res)" by simp
  have k: "fdtab compiled_state 0 = fdtab entered_state 0"
    and m: "files compiled_state ''/d/mod.so'' = Some 1"
    and e: "files entered_state (sentinel_path example_config (Some ''/d'')) = Some 0"
           "locks entered_state 0 = Some 1"
    and c: "files compiled_state (sentinel_path example_config (Some ''/d'')) = Some 0"
           "dirs compiled_state (dir_key (lock_dir_or_default example_config (Some ''/d''))) \<noteq> None"
           "locks compiled_state 0 = Some 1"
    by (simp_all add: example_defs)
  from scope_exit_frees_lock [of example_config 1 "Some ''/d''" example_state 0 entered_state
      compiling_block, OF example_enter example_compile r k] e c
  obtain s' where
    "lock_ctx example_config 1 (Some ''/d'') False compiling_block example_state =
       (Raised (OtherError ''boom''), s')"
    "locks s' 0 = None"
    "\<forall>q. \<exists>f' s''. lock_ctx_enter example_config q (Some ''/d'') s' = (Ok f', s'')"
    by auto
  with example_enter example_compile k m e show ?thesis by simp
qed

subsection \<open>C3: \<^verbatim>\<open>keep_lock\<close>\<close>

text \<open>
  C3 says that with \<^verbatim>\<open>keep_lock\<close> true the lock stays held after the scope, so that
  another process has to wait. The code skips the \<^verbatim>\<open>LOCK_UN\<close> but still leaves its
  \<^verbatim>\<open>with open\<close>, which closes the file, and the close drops the lock: on the machine
  with the empty directory \<^verbatim>\<open>/d\<close>, after process 1 has run a scope with
  \<^verbatim>\<open>keep_lock\<close> true, the sentinel has no lock on it and process 2 enters a scope on
  \<^verbatim>\<open>/d\<close> at once.
\<close>

theorem keep_lock_lost_at_close:
  "fst (lock_ctx example_config 1 (Some ''/d'') True normal_block example_state) = Ok () \<and>
   files (snd (lock_ctx example_config 1 (Some ''/d'') True normal_block example_state))
     ''/d/.theano_lock'' = Some 0 \<and>
   locks (snd (lock_ctx example_config 1 (Some ''/d'') True normal_block example_state)) 0 = None \<and>
   fst (lock_ctx_enter example_config 2 (Some ''/d'')
         (snd (lock_ctx example_config 1 (Some ''/d'') True normal_block example_state))) = Ok 1"
  by (simp add: example_run)

subsection \<open>C4: a second \<^verbatim>\<open>get_lock\<close>\<close>

text \<open>
  C4 says that in every state with a registered lock a second \<^verbatim>\<open>get_lock\<close> fails with
  the assertion, rather than succeeding, queueing or doing nothing. The code opens and
  locks before it asserts. After process 1 has registered the lock of \<^verbatim>\<open>/d\<close>, a second
  call on a directory that does not exist fails in \<^verbatim>\<open>open\<close>; and once a scope of
  process 1 on \<^verbatim>\<open>/d\<close> has dropped the process's lock and process 2 has taken it, a
  second call of process 1 on \<^verbatim>\<open>/d\<close>, still registered, waits.
\<close>

theorem second_get_lock_other_outcomes:
  "get_lock example_config 1 (Some ''/d'') example_state = (Ok (), held_state) \<and>
   get_lock_f held_state 1 = Some 0 \<and>
   fst (get_lock example_config 1 (Some ''/nowhere'') held_state) = Raised (IOError ENOENT) \<and>
   get_lock_f (snd (get_lock example_config 2 (Some ''/d'')
       (snd (lock_ctx example_config 1 (Some ''/d'') False normal_block held_state)))) 1 = Some 0 \<and>
   fst (get_lock example_config 1 (Some ''/d'')
     (snd (get_lock example_config 2 (Some ''/d'')
       (snd (lock_ctx example_config 1 (Some ''/d'') False normal_block held_state))))) = Blocked"
proof -
  have "fst (get_lock example_config 1 (Some ''/nowhere'') held_state) = Raised (IOError ENOENT)"
    by (simp add: example_run)
  moreover have "get_lock_f held_state 1 = Some 0"
    by (simp add: example_defs)
  moreover have "get_lock_f (snd (get_lock example_config 2 (Some ''/d'')
       (snd (lock_ctx example_config 1 (Some ''/d'') False normal_block held_state)))) 1 = Some 0"
    by (simp add: example_run)
  moreover have "fst (get_lock example_config 1 (Some ''/d'')
     (snd (get_lock example_config 2 (Some ''/d'')
       (snd (lock_ctx example_config 1 (Some ''/d'') False normal_block held_state))))) = Blocked"
    by (simp add: example_run)
  ultimately show ?thesis using example_get_lock by simp
qed

text \<open>
  C4, amended: in every state in which the process has a lock registered, a second
  \<^verbatim>\<open>get_lock\<close> whose sentinel can be opened and locked at once (its directory exists,
  and no other process owns the lock) fails with the assertion and leaves the
  registration as it is.
\<close>

theorem second_get_lock_asserts:
  assumes "get_lock_f s p = Some g" and "sentinel_available cfg p lock_dir s"
  shows "fst (get_lock cfg p lock_dir s) = Raised AssertionError \<and>
         get_lock_f (snd (get_lock cfg p lock_dir s)) = get_lock_f s"
  using assms
  by (auto simp: sentinel_available_def get_lock_def py_open_w_def parent_dir_sentinel
        lock_primitives split: lock_splits)

theorem second_get_lock_asserts_witness:
  "get_lock_f held_state 1 = Some 0 \<and>
   sentinel_available example_config 1 (Some ''/d'') held_state \<and>
   fst (get_lock example_config 1 (Some ''/d'') held_state) = Raised AssertionError \<and>
   get_lock_f (snd (get_lock example_config 1 (Some ''/d'') held_state)) = get_lock_f held_state"
proof -
  have a: "get_lock_f held_state 1 = Some 0"
    by (simp add: example_defs)
  have b: "sentinel_available example_config 1 (Some ''/d'') held_state"
    by (simp add: sentinel_available_def example_defs)
  from second_get_lock_asserts [OF a b] a b show ?thesis by simp
qed

subsection \<open>C5: \<^verbatim>\<open>release_lock\<close> without a lock\<close>

text \<open>
  C5: in every state in which the process holds no lock through \<^verbatim>\<open>get_lock\<close>, also
  the state that a completed \<^verbatim>\<open>release_lock\<close> leaves, \<^verbatim>\<open>release_lock\<close> fails. The
  failure is the exception raised while \<^verbatim>\<open>assert get_lock.f\<close> reads the missing
  attribute, and the state is left as it was.
\<close>

theorem release_without_lock_fails:
  "(get_lock_f s p = None \<longrightarrow> release_lock p s = (Raised AttributeError, s)) \<and>
   (release_lock p s = (Ok (), s') \<longrightarrow> release_lock p s' = (Raised AttributeError, s'))"
  by (auto simp: release_lock_def lock_primitives split: lock_splits)

theorem release_without_lock_fails_witness:
  "get_lock_f example_state 1 = None \<and>
   release_lock 1 example_state = (Raised AttributeError, example_state) \<and>
   fst (release_lock 1 held_state) = Ok () \<and>
   release_lock 1 (snd (release_lock 1 held_state)) =
     (Raised AttributeError, snd (release_lock 1 held_state))"
proof -
  have a: "get_lock_f example_state 1 = None"
    by (simp add: example_defs)
  have b: "release_lock 1 held_state = (Ok (), snd (release_lock 1 held_state))"
    using example_release by (metis prod.collapse)
  from release_without_lock_fails [of example_state 1] a
  have c: "release_lock 1 example_state = (Raised AttributeError, example_state)" by simp
  from release_without_lock_fails [of held_state 1 "snd (release_lock 1 held_state)"] b
  have "release_lock 1 (snd (release_lock 1 held_state)) =
     (Raised AttributeError, snd (release_lock 1 held_state))" by simp
  with a c example_release show ?thesis by simp
qed

subsection \<open>C6: a directory that does not exist\<close>

text \<open>
  C6: on a directory that does not exist the scoped acquisition fails with the error of
  \<^verbatim>\<open>open\<close>, in a single attempt, and creates nothing: the state is the one it started
  from, and the caller's block has not run.
\<close>

theorem scope_on_missing_directory:
  "dirs s (dir_key (lock_dir_or_default cfg lock_dir)) = None \<Longrightarrow>
   lock_ctx cfg p lock_dir keep_lock body s = (Raised (IOError ENOENT), s)"
  by (simp add: lock_ctx_def lock_ctx_enter_def py_open_w_missing)

theorem scope_on_missing_directory_witness:
  "dirs example_state (dir_key (lock_dir_or_default example_config (Some ''/nowhere''))) = None \<and>
   lock_ctx example_config 1 (Some ''/nowhere'') False normal_block example_state =
     (Raised (IOError ENOENT), example_state)"
proof -
  have h: "dirs example_state (dir_key (lock_dir_or_default example_config (Some ''/nowhere''))) = None"
    by (simp add: example_defs)
  from h scope_on_missing_directory [OF h] show ?thesis by simp
qed

subsection \<open>C7: \<^verbatim>\<open>release_lock\<close> with a lock\<close>

text \<open>
  C7: when a lock is registered, its file object being open as \<^verbatim>\<open>get_lock\<close> left it,
  \<^verbatim>\<open>release_lock\<close> returns normally, the process no longer owns the lock on the file,
  the file object is closed and nothing else is, and the process's registry entry is
  cleared and no other.
\<close>

theorem release_clears_registered_lock:
  assumes "get_lock_f s p = Some f" and "fdtab s f = Some (p, i)"
  shows "\<exists>s'. release_lock p s = (Ok (), s') \<and>
           locks s' i \<noteq> Some p \<and>
           fdtab s' = (fdtab s)(f := None) \<and>
           get_lock_f s' = (get_lock_f s)(p := None)"
  using assms by (auto simp: release_lock_def lock_primitives)

theorem release_clears_registered_lock_witness:
  "get_lock_f held_state 1 = Some 0 \<and> fdtab held_state 0 = Some (1, 0) \<and>
   locks held_state 0 = Some 1 \<and>
   fst (release_lock 1 held_state) = Ok () \<and>
   locks (snd (release_lock 1 held_state)) 0 \<noteq> Some 1 \<and>
   fdtab (snd (release_lock 1 held_state)) 0 = None \<and>
   get_lock_f (snd (release_lock 1 held_state)) 1 = None"
proof -
  have a: "get_lock_f held_state 1 = Some 0" and b: "fdtab held_state 0 = Some (1, 0)"
    and c: "locks held_state 0 = Some 1"
    by (simp_all add: example_defs)
  from release_clears_registered_lock [OF a b] a b c show ?thesis by auto
qed

subsection \<open>C8: the sentinel stays on disk\<close>

text \<open>
  C8: no lock operation deletes the sentinel. With a block that removes no file, a
  scoped acquisition on an existing writable directory leaves the sentinel on disk,
  having created it if it was absent; and no file that exists before a scoped
  acquisition, a \<^verbatim>\<open>get_lock\<close> or a \<^verbatim>\<open>release_lock\<close> is gone or renamed after it.
\<close>

theorem sentinel_never_deleted:
  assumes "keeps_files body"
  shows "(dirs s (dir_key (lock_dir_or_default cfg lock_dir)) = Some True \<longrightarrow>
            files (snd (lock_ctx cfg p lock_dir keep_lock body s)) (sentinel_path cfg lock_dir) \<noteq> None) \<and>
         (files s x = Some i \<longrightarrow>
            files (snd (lock_ctx cfg p lock_dir keep_lock body s)) x = Some i) \<and>
         (files s x = Some i \<longrightarrow> files (snd (get_lock cfg p lock_dir s)) x = Some i) \<and>
         files (snd (release_lock p s)) = files s"
proof -
  have "files (snd (lock_ctx cfg p lock_dir keep_lock body s)) (sentinel_path cfg lock_dir) \<noteq> None"
    if d: "dirs s (dir_key (lock_dir_or_default cfg lock_dir)) = Some True"
  proof -
    obtain r s1 where e: "lock_ctx_enter cfg p lock_dir s = (r, s1)"
      by (cases "lock_ctx_enter cfg p lock_dir s")
    with lock_ctx_enter_creates [OF d, of p]
    obtain j where s1: "files s1 (sentinel_path cfg lock_dir) = Some j" by auto
    show ?thesis
    proof (cases r)
      case (Ok f)
      obtain r2 s2 where b: "body s1 = (r2, s2)" by (cases "body s1")
      with assms s1 have "files s2 (sentinel_path cfg lock_dir) = Some j"
        unfolding keeps_files_def by (metis snd_conv)
      with e Ok b show ?thesis
        by (simp add: lock_ctx_def lock_ctx_exit_files)
    qed (use e s1 in \<open>simp_all add: lock_ctx_def\<close>)
  qed
  then show ?thesis
    using lock_ctx_files [OF assms] get_lock_files release_lock_files by blast
qed

theorem sentinel_never_deleted_witness:
  "keeps_files normal_block \<and>
   dirs example_state (dir_key (lock_dir_or_default example_config (Some ''/d''))) = Some True \<and>
   files example_state (sentinel_path example_config (Some ''/d'')) = None \<and>
   files (snd (lock_ctx example_config 1 (Some ''/d'') False normal_block example_state))
     (sentinel_path example_config (Some ''/d'')) \<noteq> None \<and>
   files held_state ''/d/.theano_lock'' = Some 0 \<and>
   files (snd (lock_ctx example_config 1 (Some ''/d'') False normal_block held_state))
     ''/d/.theano_lock'' = Some 0 \<and>
   files (snd (get_lock example_config 1 (Some ''/d'') held_state)) ''/d/.theano_lock'' = Some 0 \<and>
   files (snd (release_lock 1 held_state)) = files held_state"
proof -
  have k: "keeps_files normal_block"
    by (simp add: keeps_files_def normal_block_def)
  have d: "dirs example_state (dir_key (lock_dir_or_default example_config (Some ''/d''))) = Some True"
    and n: "files example_state (sentinel_path example_config (Some ''/d'')) = None"
    and h: "files held_state ''/d/.theano_lock'' = Some 0"
    by (simp_all add: example_defs)
  from sentinel_never_deleted [OF k, of example_state example_config "Some ''/d''" 1 False] d
  have 1: "files (snd (lock_ctx example_config 1 (Some ''/d'') False normal_block example_state))
     (sentinel_path example_config (Some ''/d'')) \<noteq> None" by blast
  from sentinel_never_deleted [OF k, of held_state example_config "Some ''/d''" 1 False
      "''/d/.theano_lock''" 0] h
  have 2: "files (snd (lock_ctx example_config 1 (Some ''/d'') False normal_block held_state))
     ''/d/.theano_lock'' = Some 0"
    and 3: "files (snd (get_lock example_config 1 (Some ''/d'') held_state)) ''/d/.theano_lock'' = Some 0"
    and 4: "files (snd (release_lock 1 held_state)) = files held_state"
    by blast+
  from k d n h 1 2 3 4 show ?thesis by blast
qed

subsection \<open>C9: where the sentinel lives\<close>

text \<open>
  C9 says that every operation locks one sentinel at \<^verbatim>\<open><directory_path>/.lockfile\<close>.
  The name in the code is \<^verbatim>\<open>.theano_lock\<close>: after \<^verbatim>\<open>get_lock\<close> on \<^verbatim>\<open>/d\<close> the
  directory has no \<^verbatim>\<open>.lockfile\<close>; the file made and locked is
  \<^verbatim>\<open>/d/.theano_lock\<close>.
\<close>

theorem sentinel_is_not_lockfile:
  "get_lock example_config 1 (Some ''/d'') example_state = (Ok (), held_state) \<and>
   sentinel_path example_config (Some ''/d'') \<noteq> ''/d/.lockfile'' \<and>
   files held_state ''/d/.lockfile'' = None \<and>
   files held_state ''/d/.theano_lock'' = Some 0 \<and>
   locks held_state 0 = Some 1"
proof -
  have "sentinel_path example_config (Some ''/d'') \<noteq> ''/d/.lockfile''"
    "files held_state ''/d/.lockfile'' = None"
    "files held_state ''/d/.theano_lock'' = Some 0"
    "locks held_state 0 = Some 1"
    by (simp_all add: example_defs)
  with example_get_lock show ?thesis by simp
qed

text \<open>
  C9, amended: the sentinel has the fixed name \<^verbatim>\<open>.theano_lock\<close> and lives in the
  directory passed in, or in the configured compile directory when none is passed. A
  scope that has been entered holds its file object open on the file of that path and
  the process owns the lock on it; a \<^verbatim>\<open>get_lock\<close> that has returned has registered a
  file object open on the file of that path, the process owns the lock on it, and a
  \<^verbatim>\<open>release_lock\<close> then unlocks that very file; and for a directory name that is not
  empty and does not end in a separator the path is the name, a separator and
  \<^verbatim>\<open>.theano_lock\<close>.
\<close>

theorem sentinel_is_theano_lock:
  "(lock_ctx_enter cfg p lock_dir s = (Ok f, s1) \<longrightarrow>
      (\<exists>i. files s1 (os_path_join (lock_dir_or_default cfg lock_dir) ''.theano_lock'') = Some i \<and>
           fdtab s1 f = Some (p, i) \<and> locks s1 i = Some p)) \<and>
   (get_lock cfg p lock_dir s = (Ok (), s2) \<longrightarrow>
      (\<exists>g i. files s2 (os_path_join (lock_dir_or_default cfg lock_dir) ''.theano_lock'') = Some i \<and>
           get_lock_f s2 p = Some g \<and> fdtab s2 g = Some (p, i) \<and> locks s2 i = Some p \<and>
           locks (snd (release_lock p s2)) = (locks s2)(i := None))) \<and>
   (lock_dir_or_default cfg lock_dir \<noteq> [] \<and> last (lock_dir_or_default cfg lock_dir) \<noteq> CHR ''/'' \<longrightarrow>
      os_path_join (lock_dir_or_default cfg lock_dir) ''.theano_lock'' =
        lock_dir_or_default cfg lock_dir @ ''/.theano_lock'')"
proof (intro conjI impI)
  assume "lock_ctx_enter cfg p lock_dir s = (Ok f, s1)"
  from lock_ctx_enter_Ok [OF this]
  show "\<exists>i. files s1 (os_path_join (lock_dir_or_default cfg lock_dir) ''.theano_lock'') = Some i \<and>
           fdtab s1 f = Some (p, i) \<and> locks s1 i = Some p"
    by (simp add: sentinel_path_def)
next
  assume "get_lock cfg p lock_dir s = (Ok (), s2)"
  from get_lock_registers [OF this] obtain g i where
    g: "get_lock_f s2 p = Some g" "fdtab s2 g = Some (p, i)"
       "files s2 (sentinel_path cfg lock_dir) = Some i" "locks s2 i = Some p"
    by blast
  from release_lock_post [OF g(1,2)] g(4)
  have "locks (snd (release_lock p s2)) = (locks s2)(i := None)" by simp
  with g
  show "\<exists>g i. files s2 (os_path_join (lock_dir_or_default cfg lock_dir) ''.theano_lock'') = Some i \<and>
           get_lock_f s2 p = Some g \<and> fdtab s2 g = Some (p, i) \<and> locks s2 i = Some p \<and>
           locks (snd (release_lock p s2)) = (locks s2)(i := None)"
    by (simp add: sentinel_path_def)
next
  assume "lock_dir_or_default cfg lock_dir \<noteq> [] \<and> last (lock_dir_or_default cfg lock_dir) \<noteq> CHR ''/''"
  then show "os_path_join (lock_dir_or_default cfg lock_dir) ''.theano_lock'' =
        lock_dir_or_default cfg lock_dir @ ''/.theano_lock''"
    by (simp add: os_path_join_def)
qed

text \<open>
  With no directory passed and \<^verbatim>\<open>/d\<close> configured: the scope and \<^verbatim>\<open>get_lock\<close> both
  make and lock \<^verbatim>\<open>/d/.theano_lock\<close>.
\<close>

theorem sentinel_is_theano_lock_witness:
  "lock_ctx_enter example_config 1 None example_state = (Ok 0, entered_state) \<and>
   get_lock example_config 1 None example_state = (Ok (), held_state) \<and>
   lock_dir_or_default example_config None = ''/d'' \<and>
   os_path_join (lock_dir_or_default example_config None) ''.theano_lock'' = ''/d/.theano_lock'' \<and>
   (\<exists>i. files entered_state ''/d/.theano_lock'' = Some i \<and>
        fdtab entered_state 0 = Some (1, i) \<and> locks entered_state i = Some 1) \<and>
   (\<exists>g i. files held_state ''/d/.theano_lock'' = Some i \<and>
        get_lock_f held_state 1 = Some g \<and> fdtab held_state g = Some (1, i) \<and>
        locks held_state i = Some 1 \<and>
        locks (snd (release_lock 1 held_state)) = (locks held_state)(i := None))"
proof -
  have a: "lock_ctx_enter example_config 1 None example_state = (Ok 0, entered_state)"
    by (auto simp: example_run)
  have b: "get_lock example_config 1 None example_state = (Ok (), held_state)"
    by (auto simp: example_run)
  have c: "lock_dir_or_default example_config None = ''/d''"
    by (simp add: example_defs)
  have d: "os_path_join ''/d'' ''.theano_lock'' = ''/d/.theano_lock''"
    by (simp add: os_path_join_def)
  from sentinel_is_theano_lock [of example_config 1 None example_state 0 entered_state held_state]
    a b c d
  show ?thesis by simp
qed

subsection \<open>C10: every acquisition truncates the sentinel\<close>

text \<open>
  C10: both forms of acquisition open the sentinel for writing, which empties it.
  Whenever the \<^verbatim>\<open>open\<close> succeeds (the directory exists, and the sentinel exists or the
  directory is writable), the sentinel is empty when the scope has been entered and
  when \<^verbatim>\<open>get_lock\<close> is over, whether the lock was got, is being waited for, or the
  assertion failed.
\<close>

theorem acquisition_truncates:
  assumes "dirs s (dir_key (lock_dir_or_default cfg lock_dir)) = Some w"
      and "w \<or> files s (sentinel_path cfg lock_dir) \<noteq> None"
  shows "(\<exists>i. files (snd (lock_ctx_enter cfg p lock_dir s)) (sentinel_path cfg lock_dir) = Some i \<and>
              contents (snd (lock_ctx_enter cfg p lock_dir s)) i = []) \<and>
         (\<exists>i. files (snd (get_lock cfg p lock_dir s)) (sentinel_path cfg lock_dir) = Some i \<and>
              contents (snd (get_lock cfg p lock_dir s)) i = [])"
  using assms
  by (auto simp: lock_ctx_enter_def get_lock_def py_open_w_def parent_dir_sentinel lock_primitives
        split: lock_splits)

text \<open>A sentinel that holds \<^verbatim>\<open>old data\<close> is empty after either acquisition.\<close>

theorem acquisition_truncates_witness:
  "dirs stale_state (dir_key (lock_dir_or_default example_config (Some ''/d''))) = Some True \<and>
   files stale_state (sentinel_path example_config (Some ''/d'')) = Some 0 \<and>
   contents stale_state 0 = ''old data'' \<and>
   (\<exists>i. files (snd (lock_ctx_enter example_config 1 (Some ''/d'') stale_state))
          (sentinel_path example_config (Some ''/d'')) = Some i \<and>
        contents (snd (lock_ctx_enter example_config 1 (Some ''/d'') stale_state)) i = []) \<and>
   (\<exists>i. files (snd (get_lock example_config 1 (Some ''/d'') stale_state))
          (sentinel_path example_config (Some ''/d'')) = Some i \<and>
        contents (snd (get_lock example_config 1 (Some ''/d'') stale_state)) i = [])"
proof -
  have a: "dirs stale_state (dir_key (lock_dir_or_default example_config (Some ''/d''))) = Some True"
    and b: "files stale_state (sentinel_path example_config (Some ''/d'')) = Some 0"
    and c: "contents stale_state 0 = ''old data''"
    by (simp_all add: example_defs)
  from b have b': "True \<or> files stale_state (sentinel_path example_config (Some ''/d'')) \<noteq> None"
    by simp
  from acquisition_truncates [OF a b', of 1] a b c show ?thesis by blast
qed

end
